theory Spec2Isabelle
  imports Complex_Main
begin

section \<open>Strings\<close>

text \<open>
  A JavaScript string is modelled as a \<^typ>\<open>string\<close>: a list of 8-bit characters, read as
  the code units U+0000 .. U+00FF. Code units above U+00FF are outside the model.
\<close>

definition isWhiteSpace :: "char \<Rightarrow> bool" where
  \<comment> \<open>the regular expression class \<open>\s\<close> and the characters removed by \<open>trim\<close>: TAB, LF, VT,
      FF, CR, SPACE and NO-BREAK SPACE (their members below U+0100)\<close>
  "isWhiteSpace c =
     (c \<in> set [CHR 0x09, CHR 0x0A, CHR 0x0B, CHR 0x0C, CHR 0x0D, CHR 0x20, CHR 0xA0])"

definition toLowerCaseChar :: "char \<Rightarrow> char" where
  \<comment> \<open>\<open>A-Z\<close> and the upper-case letters of U+00C0 .. U+00DE (U+00D7 is the multiplication
      sign) move 32 places up; every other code unit below U+0100 is its own lower case\<close>
  "toLowerCaseChar c =
     (let n = (of_char c :: nat)
      in if (65 \<le> n \<and> n \<le> 90) \<or> (192 \<le> n \<and> n \<le> 222 \<and> n \<noteq> 215)
         then char_of (n + 32) else c)"

definition toLowerCase :: "string \<Rightarrow> string" where
  "toLowerCase s = map toLowerCaseChar s"

definition trim :: "string \<Rightarrow> string" where
  "trim s = rev (dropWhile isWhiteSpace (rev (dropWhile isWhiteSpace s)))"

section \<open>County names: \<open>normalizeCountyName\<close>\<close>

text \<open>
  \<^verbatim>\<open>name.replace(/\s+County$/i, '').trim()\<close>

  Under the flag \<open>i\<close> a letter of the pattern matches itself in either case; no code unit
  outside ASCII is folded onto an ASCII letter.
\<close>

definition matchesIgnoreCase :: "char \<Rightarrow> char \<Rightarrow> bool" where
  "matchesIgnoreCase p c = (c = p \<or> toLowerCaseChar c = p \<or> c = toLowerCaseChar p)"

text \<open>
  \<open>matchesCountyAtEnd t\<close>: the whole of \<open>t\<close> is matched by \<open>\s+County\<close> followed by the end of
  the input. The greedy \<open>\s+\<close> takes the longest run of white space; giving some of it back
  cannot help, as \<open>C\<close> is no white space.
\<close>

definition matchesCountyAtEnd :: "string \<Rightarrow> bool" where
  "matchesCountyAtEnd t =
     (takeWhile isWhiteSpace t \<noteq> [] \<and>
      list_all2 matchesIgnoreCase ''County'' (dropWhile isWhiteSpace t))"

text \<open>
  \<open>replace\<close> with a pattern that has no flag \<open>g\<close> rewrites the leftmost match only. The
  search tries every start position from the left; a match reaches the end of the input,
  so replacing it by the empty string keeps the text before the start position.
\<close>

fun replaceCountySuffix :: "string \<Rightarrow> string" where
  "replaceCountySuffix [] = []"
| "replaceCountySuffix (c # cs) =
     (if matchesCountyAtEnd (c # cs) then [] else c # replaceCountySuffix cs)"

definition normalizeCountyName :: "string \<Rightarrow> string" where
  "normalizeCountyName name = trim (replaceCountySuffix name)"

section \<open>Numbers and dynamically typed values\<close>

text \<open>
  A JavaScript number is a finite double, an infinity or NaN. The finite doubles are
  embedded in the reals: the code below only compares numbers, and the comparison of two
  finite doubles is the comparison of the reals they denote (\<open>-0\<close> and \<open>0\<close> are equal).
  A decimal literal of the source stands for the double nearest to it; the literals used
  below compare with the thresholds as their exact decimal values do.
\<close>

datatype number = Finite real | PosInfinity | NegInfinity | NaN

fun js_lt :: "number \<Rightarrow> number \<Rightarrow> bool" where
  "js_lt (Finite a) (Finite b) = (a < b)"
| "js_lt (Finite a) PosInfinity = True"
| "js_lt NegInfinity (Finite b) = True"
| "js_lt NegInfinity PosInfinity = True"
| "js_lt _ _ = False"

definition js_le :: "number \<Rightarrow> number \<Rightarrow> bool" where
  "js_le a b = (a \<noteq> NaN \<and> b \<noteq> NaN \<and> \<not> js_lt b a)"

definition js_eq :: "number \<Rightarrow> number \<Rightarrow> bool" where
  "js_eq a b = (a \<noteq> NaN \<and> a = b)"

definition truthyNumber :: "number \<Rightarrow> bool" where
  "truthyNumber n = (n \<noteq> Finite 0 \<and> n \<noteq> NaN)"

text \<open>
  The values a parsed JSON document holds, for the entries the code reads without a static
  type (\<open>hazard: any\<close>). An object is the list of its own properties.
\<close>

datatype jsval =
    Undefined
  | Null
  | Boolean bool
  | Number number
  | Str string
  | Arr "jsval list"
  | Obj "(string \<times> jsval) list"

fun truthy :: "jsval \<Rightarrow> bool" where
  "truthy Undefined = False"
| "truthy Null = False"
| "truthy (Boolean b) = b"
| "truthy (Number n) = truthyNumber n"
| "truthy (Str s) = (s \<noteq> [])"
| "truthy (Arr _) = True"
| "truthy (Obj _) = True"

fun isObject :: "jsval \<Rightarrow> bool" where
  \<comment> \<open>\<open>hazard && typeof hazard === 'object'\<close>: \<open>typeof null\<close> is \<open>'object'\<close> too, but \<open>null\<close> is falsy\<close>
  "isObject (Arr _) = True"
| "isObject (Obj _) = True"
| "isObject _ = False"

fun getProp :: "jsval \<Rightarrow> string \<Rightarrow> jsval" where
  \<comment> \<open>\<open>hazard.key\<close> for the keys read below, none of which an array or a prototype defines\<close>
  "getProp (Obj kvs) key = (case map_of kvs key of Some v \<Rightarrow> v | None \<Rightarrow> Undefined)"
| "getProp _ key = Undefined"

section \<open>The county record\<close>

record Coordinates =
  latitude :: number
  longitude :: number

text \<open>The source's field \<open>value\<close> is \<open>val\<close> here.\<close>

record ('v, 's) Measurement =
  val :: 'v
  unit :: 's
  validTime :: 's

record Alert =
  event :: string
  headline :: string
  severity :: "string option"
  description :: "string option"

record CountyFields =
  temperature :: "(number, string) Measurement"
  relativeHumidity :: "(number, string) Measurement"
  hazards :: "jsval list"
  probabilityOfPrecipitation :: "(number, string) Measurement"
  visibility :: "(number option, string option) Measurement"
  alerts :: "Alert list option"

record CountyData =
  countyName :: string
  coordinates :: Coordinates
  data :: CountyFields

section \<open>The colour of a county: \<open>getColor\<close>\<close>

text \<open>The callback of \<open>county.data.alerts.forEach\<close>, on the variable \<open>highestSeverity\<close>.\<close>

definition updateHighestSeverity :: "string \<Rightarrow> Alert \<Rightarrow> string" where
  "updateHighestSeverity highestSeverity alert =
     (let sev = map_option toLowerCase (severity alert)
      in if sev = Some ''extreme'' then ''extreme''
         else if sev = Some ''severe'' \<and> highestSeverity \<noteq> ''extreme'' then ''severe''
         else if sev = Some ''moderate'' \<and> highestSeverity \<notin> set [''extreme'', ''severe'']
           then ''moderate''
         else highestSeverity)"

definition highestSeverityOf :: "Alert list \<Rightarrow> string" where
  "highestSeverityOf as = foldl updateHighestSeverity ''minor'' as"

definition severityColor :: "string \<Rightarrow> string" where
  "severityColor highestSeverity =
     (if highestSeverity = ''extreme'' \<or> highestSeverity = ''severe'' then ''#FF0000''
      else if highestSeverity = ''moderate'' then ''#FFA500''
      else ''#FFFF00'')"

definition getColor :: "CountyData \<Rightarrow> string \<Rightarrow> string" where
  "getColor county dataType =
     (if dataType = ''temperature'' then
        (let temp = val (temperature (data county))
         in if js_lt temp (Finite 0) then ''#9CA3AF''
            else if js_lt temp (Finite 10) then ''#F7FCFD''
            else if js_lt temp (Finite 20) then ''#FFD166''
            else if js_lt temp (Finite 30) then ''#FF9966''
            else ''#FF5F5F'')
      else if dataType = ''precipitation'' then
        (let precipProbability = val (probabilityOfPrecipitation (data county))
         in if js_eq precipProbability (Finite 0) then ''#FFFFFF''
            else if js_le precipProbability (Finite 20) then ''#E6F0FF''
            else if js_le precipProbability (Finite 40) then ''#B3D9FF''
            else if js_le precipProbability (Finite 60) then ''#80C2FF''
            else if js_le precipProbability (Finite 80) then ''#4DA6FF''
            else ''#1A8CFF'')
      else if dataType = ''hazards'' then
        (if length (hazards (data county)) > 0 then ''#FF5F5F'' else ''#F7FCFD'')
      else if dataType = ''visibility'' then
        (case val (visibility (data county)) of
           None \<Rightarrow> ''#F7FCFD''
         | Some v \<Rightarrow>
             if \<not> truthyNumber v then ''#F7FCFD''
             else if js_lt v (Finite 1000) then ''#FF5F5F''
             else if js_lt v (Finite 5000) then ''#FF9966''
             else if js_lt v (Finite 10000) then ''#FFD166''
             else ''#F7FCFD'')
      else if dataType = ''alerts'' then
        (case alerts (data county) of
           None \<Rightarrow> ''#F7FCFD''
         | Some as \<Rightarrow>
             if length as = 0 then ''#F7FCFD''
             else severityColor (highestSeverityOf as))
      else ''#9CA3AF'')"

definition findCountyByName :: "CountyData list \<Rightarrow> string \<Rightarrow> CountyData option" where
  "findCountyByName counties name =
     (let normalizedName = normalizeCountyName name
      in find (\<lambda>county. normalizeCountyName (countyName county) = normalizedName) counties)"

section \<open>The fill-colour expression: \<open>generateFillColorExpression\<close>\<close>

text \<open>
  The expression is an array whose items are strings, but for the second, the array
  \<open>['get', 'COUNTY']\<close>. The loop pushes two items for every county.
\<close>

datatype exprItem = Lit string | Call "string list"

definition pushCounty :: "string \<Rightarrow> exprItem list \<Rightarrow> CountyData \<Rightarrow> exprItem list" where
  "pushCounty dataType matchExpression county =
     matchExpression @ [Lit (countyName county @ '' County''), Lit (getColor county dataType)]"

definition generateFillColorExpression :: "CountyData list \<Rightarrow> string \<Rightarrow> exprItem list" where
  "generateFillColorExpression counties dataType =
     foldl (pushCounty dataType) [Lit ''match'', Call [''get'', ''COUNTY'']] counties
       @ [Lit ''#CCCCCC'']"

text \<open>
  How the map library reads a \<open>match\<close> expression
  \<open>['match', input, label, output, ..., fallback]\<close> whose labels and outputs are string
  literals, which is all the generated expression holds. After the operator and the input
  come pairs of a label and an output, then the fallback. The library refuses an
  expression without a pair (it wants four arguments at least) and one in which a label
  occurs twice (the labels of the branches must be unique); a layer with such a paint
  property gets no colour. The result \<open>None\<close> stands for that, and for every expression
  that is not of this form.
\<close>

fun branchesOf :: "exprItem list \<Rightarrow> ((string \<times> string) list \<times> string) option" where
  "branchesOf [Lit fallback] = Some ([], fallback)"
| "branchesOf (Lit label # Lit output # rest) =
     (case branchesOf rest of
        None \<Rightarrow> None
      | Some (branches, fallback) \<Rightarrow> Some ((label, output) # branches, fallback))"
| "branchesOf _ = None"

text \<open>
  The value of an accepted expression at an input: the output of the label that equals the
  input, the fallback when none does.
\<close>

definition matchValue :: "exprItem list \<Rightarrow> string \<Rightarrow> string option" where
  "matchValue expr input =
     (case expr of
        Lit operator # Call [getter, property] # rest \<Rightarrow>
          if operator = ''match'' \<and> getter = ''get'' then
            (case branchesOf rest of
               None \<Rightarrow> None
             | Some (branches, fallback) \<Rightarrow>
                 if branches \<noteq> [] \<and> distinct (map fst branches) then
                   Some (case map_of branches input of
                           Some output \<Rightarrow> output
                         | None \<Rightarrow> fallback)
                 else None)
          else None
      | _ \<Rightarrow> None)"

section \<open>The detail card: hazards and visibility\<close>

text \<open>
  \<open>JSON.stringify\<close> is a parameter of the model: \<open>stringify h = None\<close> stands for a call that
  throws, \<open>Some s\<close> for one that returns \<open>s\<close>. The function returns the value of a property
  as it finds it, so the result is a \<^typ>\<open>jsval\<close>.
\<close>

definition getHazardDisplayText :: "(jsval \<Rightarrow> string option) \<Rightarrow> jsval \<Rightarrow> jsval" where
  "getHazardDisplayText stringify hazard =
     (case hazard of
        Str s \<Rightarrow> Str s
      | _ \<Rightarrow>
          if isObject hazard then
            if truthy (getProp hazard ''event'') then getProp hazard ''event''
            else if truthy (getProp hazard ''type'') then getProp hazard ''type''
            else if truthy (getProp hazard ''name'') then getProp hazard ''name''
            else if truthy (getProp hazard ''description'') then getProp hazard ''description''
            else if truthy (getProp hazard ''phenomenon'') then getProp hazard ''phenomenon''
            else (case stringify hazard of
                    Some s \<Rightarrow> Str s
                  | None \<Rightarrow> Str ''Unknown hazard'')
          else Str ''Unknown hazard'')"

text \<open>
  \<open>formatHazards\<close> maps the same steps over the list and joins the results with a comma and
  a space. \<open>join\<close> turns every element into a string; \<open>toString\<close> stands for that conversion
  of an element that is no string.
\<close>

definition formatHazardsEntry :: "(jsval \<Rightarrow> string option) \<Rightarrow> jsval \<Rightarrow> jsval" where
  "formatHazardsEntry stringify hazard =
     (case hazard of
        Str s \<Rightarrow> Str s
      | _ \<Rightarrow>
          if isObject hazard then
            if truthy (getProp hazard ''event'') then getProp hazard ''event''
            else if truthy (getProp hazard ''type'') then getProp hazard ''type''
            else if truthy (getProp hazard ''name'') then getProp hazard ''name''
            else if truthy (getProp hazard ''description'') then getProp hazard ''description''
            else if truthy (getProp hazard ''phenomenon'') then getProp hazard ''phenomenon''
            else (case stringify hazard of
                    Some s \<Rightarrow> Str s
                  | None \<Rightarrow> Str ''Unknown hazard'')
          else Str ''Unknown hazard'')"

fun joinWith :: "string \<Rightarrow> string list \<Rightarrow> string" where
  "joinWith sep [] = []"
| "joinWith sep [x] = x"
| "joinWith sep (x # y # ys) = x @ sep @ joinWith sep (y # ys)"

definition elementText :: "(jsval \<Rightarrow> string) \<Rightarrow> jsval \<Rightarrow> string" where
  "elementText toString v =
     (case v of Str s \<Rightarrow> s | Undefined \<Rightarrow> [] | Null \<Rightarrow> [] | _ \<Rightarrow> toString v)"

definition formatHazards ::
  "(jsval \<Rightarrow> string option) \<Rightarrow> (jsval \<Rightarrow> string) \<Rightarrow> jsval list \<Rightarrow> string" where
  "formatHazards stringify toString hzs =
     (if length hzs = 0 then ''None''
      else joinWith '', '' (map (\<lambda>hazard. elementText toString (formatHazardsEntry stringify hazard)) hzs))"

definition getVisibilityBadgeColor :: "number option \<Rightarrow> string" where
  "getVisibilityBadgeColor meters =
     (case meters of
        None \<Rightarrow> ''bg-gray-400 text-white''
      | Some m \<Rightarrow>
          if js_lt m (Finite 1000) then ''bg-red-500 text-white''
          else if js_lt m (Finite 5000) then ''bg-orange-500''
          else if js_lt m (Finite 10000) then ''bg-yellow-400''
          else ''bg-blue-500 text-white'')"

text \<open>
  \<open>milesText m\<close> stands for \<open>(m / 1609.34).toFixed(1)\<close>, a floating-point division and its
  decimal rendering, which the model leaves open.
\<close>

definition getVisibilityLabel :: "(number \<Rightarrow> string) \<Rightarrow> number option \<Rightarrow> string" where
  "getVisibilityLabel milesText meters =
     (case meters of
        None \<Rightarrow> ''Not available''
      | Some m \<Rightarrow>
          (let miles = milesText m
           in if js_lt m (Finite 1000) then ''Very poor ('' @ miles @ '' mi)''
              else if js_lt m (Finite 5000) then ''Poor ('' @ miles @ '' mi)''
              else if js_lt m (Finite 10000) then ''Moderate ('' @ miles @ '' mi)''
              else ''Good ('' @ miles @ '' mi)''))"

section \<open>Sample records\<close>

text \<open>Three of the records of \<open>loadCountyData\<close>; none of them has the optional \<open>alerts\<close>.\<close>

definition foard :: CountyData where
  "foard =
     \<lparr> countyName = ''Foard'',
       coordinates = \<lparr> latitude = Finite 33.97408519, longitude = Finite (- 99.77871109) \<rparr>,
       data =
         \<lparr> temperature =
             \<lparr> val = Finite 2.7777777777777777, unit = ''wmoUnit:degC'',
               validTime = ''2025-04-07T10:00:00+00:00/PT1H'' \<rparr>,
           relativeHumidity =
             \<lparr> val = Finite 78, unit = ''wmoUnit:percent'',
               validTime = ''2025-04-07T10:00:00+00:00/PT1H'' \<rparr>,
           hazards = [],
           probabilityOfPrecipitation =
             \<lparr> val = Finite 0, unit = ''wmoUnit:percent'',
               validTime = ''2025-04-07T10:00:00+00:00/P4DT14H'' \<rparr>,
           visibility = \<lparr> val = None, unit = None, validTime = None \<rparr>,
           alerts = None \<rparr> \<rparr>"

definition blanco :: CountyData where
  "blanco =
     \<lparr> countyName = ''Blanco'',
       coordinates = \<lparr> latitude = Finite 30.26636128, longitude = Finite (- 98.39974086) \<rparr>,
       data =
         \<lparr> temperature =
             \<lparr> val = Finite 2.7777777777777777, unit = ''wmoUnit:degC'',
               validTime = ''2025-04-07T11:00:00+00:00/PT1H'' \<rparr>,
           relativeHumidity =
             \<lparr> val = Finite 84, unit = ''wmoUnit:percent'',
               validTime = ''2025-04-07T11:00:00+00:00/PT1H'' \<rparr>,
           hazards = [],
           probabilityOfPrecipitation =
             \<lparr> val = Finite 0, unit = ''wmoUnit:percent'',
               validTime = ''2025-04-07T11:00:00+00:00/P7DT13H'' \<rparr>,
           visibility =
             \<lparr> val = Some (Finite 16093.44), unit = Some ''wmoUnit:m'',
               validTime = Some ''2025-04-07T11:00:00+00:00/P2DT8H'' \<rparr>,
           alerts = None \<rparr> \<rparr>"

definition travis :: CountyData where
  "travis =
     \<lparr> countyName = ''Travis'',
       coordinates = \<lparr> latitude = Finite 30.33192778, longitude = Finite (- 97.77100281) \<rparr>,
       data =
         \<lparr> temperature =
             \<lparr> val = Finite 18.3, unit = ''wmoUnit:degC'',
               validTime = ''2025-04-07T11:00:00+00:00/PT1H'' \<rparr>,
           relativeHumidity =
             \<lparr> val = Finite 65, unit = ''wmoUnit:percent'',
               validTime = ''2025-04-07T11:00:00+00:00/PT1H'' \<rparr>,
           hazards = [Str ''Thunderstorm''],
           probabilityOfPrecipitation =
             \<lparr> val = Finite 60, unit = ''wmoUnit:percent'',
               validTime = ''2025-04-07T11:00:00+00:00/P7DT7H'' \<rparr>,
           visibility =
             \<lparr> val = Some (Finite 5000), unit = Some ''wmoUnit:m'',
               validTime = Some ''2025-04-07T11:00:00+00:00/P2DT8H'' \<rparr>,
           alerts = None \<rparr> \<rparr>"

text \<open>Setters for the fields the metrics read, to vary a sample record.\<close>

definition withTemperature :: "number \<Rightarrow> CountyData \<Rightarrow> CountyData" where
  "withTemperature t county =
     county\<lparr> data := (data county)\<lparr> temperature := (temperature (data county))\<lparr> val := t \<rparr> \<rparr> \<rparr>"

definition withVisibility :: "number option \<Rightarrow> CountyData \<Rightarrow> CountyData" where
  "withVisibility v county =
     county\<lparr> data := (data county)\<lparr> visibility := (visibility (data county))\<lparr> val := v \<rparr> \<rparr> \<rparr>"

definition withAlerts :: "Alert list \<Rightarrow> CountyData \<Rightarrow> CountyData" where
  "withAlerts as county = county\<lparr> data := (data county)\<lparr> alerts := Some as \<rparr> \<rparr>"

definition alertOfSeverity :: "string \<Rightarrow> Alert" where
  "alertOfSeverity s =
     \<lparr> event = ''Flood Warning'', headline = ''Flood Warning issued'',
       severity = Some s, description = None \<rparr>"

section \<open>The severity rank of the specification\<close>

text \<open>
  The rank order \<open>extreme > severe > moderate > minor\<close>, read without regard to case; an
  unknown or absent severity ranks as \<open>minor\<close>. \<open>worstSeverity\<close> is the severity of the
  highest rank among the alerts of a list.
\<close>

definition severityRank :: "string option \<Rightarrow> nat" where
  "severityRank sev =
     (case sev of
        None \<Rightarrow> 0
      | Some s \<Rightarrow>
          if toLowerCase s = ''extreme'' then 3
          else if toLowerCase s = ''severe'' then 2
          else if toLowerCase s = ''moderate'' then 1
          else 0)"

definition severityOfRank :: "nat \<Rightarrow> string" where
  "severityOfRank r =
     (if r = 3 then ''extreme'' else if r = 2 then ''severe''
      else if r = 1 then ''moderate'' else ''minor'')"

definition worstRank :: "Alert list \<Rightarrow> nat" where
  "worstRank as = Max (set (map (\<lambda>alert. severityRank (severity alert)) as))"

definition worstSeverity :: "Alert list \<Rightarrow> string" where
  "worstSeverity as = severityOfRank (worstRank as)"

section \<open>Publishing the snapshot\<close>

text \<open>
  Modelled from the spec: the collection script \<open>src/texas-alerts.py\<close>, which the workflow
  \<open>update-weather-data.yml\<close> runs to write the artifacts, is not among the sources. The
  published artifact set is a map from file names to contents. An artifact is written to
  a temporary file that is then renamed over the artifact, so that no reader sees a file
  half written.
\<close>

type_synonym files = "string \<Rightarrow> string option"

definition writeAtomic :: "string \<Rightarrow> string \<Rightarrow> files \<Rightarrow> files" where
  \<comment> \<open>Modelled from the spec: write to temp + rename.\<close>
  "writeAtomic path content fs =
     (let tmp = path @ ''.tmp'';
          staged = fs(tmp \<mapsto> content)
      in (staged(path := staged tmp))(tmp := None))"

text \<open>
  Modelled from the spec: \<open>publish(records, timestamp)\<close> writes the JSON array of the
  records, the equivalent tabular form and the object \<open>{last_updated: timestamp}\<close>. The
  specification fixes the three file names and leaves the three encodings open; they are
  the parameters \<open>toJson\<close>, \<open>toCsv\<close> and \<open>timestampJson\<close>.
\<close>

definition publish ::
  "(CountyData list \<Rightarrow> string) \<Rightarrow> (CountyData list \<Rightarrow> string) \<Rightarrow> (string \<Rightarrow> string) \<Rightarrow>
   CountyData list \<Rightarrow> string \<Rightarrow> files \<Rightarrow> files" where
  "publish toJson toCsv timestampJson records timestamp fs =
     writeAtomic ''weather_timestamp.json'' (timestampJson timestamp)
       (writeAtomic ''texas_counties_weather.csv'' (toCsv records)
          (writeAtomic ''texas_counties_weather.json'' (toJson records) fs))"

definition artifacts :: "files \<Rightarrow> string option \<times> string option \<times> string option" where
  "artifacts fs =
     (fs ''texas_counties_weather.json'', fs ''texas_counties_weather.csv'',
      fs ''weather_timestamp.json'')"

section \<open>Auxiliary notions for the proofs\<close>

text \<open>The four values the variable \<open>highestSeverity\<close> takes, and their ranks.\<close>

definition knownLevel :: "string \<Rightarrow> bool" where
  "knownLevel s = (s \<in> set [''minor'', ''moderate'', ''severe'', ''extreme''])"

definition levelRank :: "string \<Rightarrow> nat" where
  "levelRank s =
     (if s = ''extreme'' then 3 else if s = ''severe'' then 2
      else if s = ''moderate'' then 1 else 0)"

section \<open>Alerts: the worst severity decides\<close>

lemma updateHighestSeverity_rank:
  assumes "knownLevel h"
  shows "knownLevel (updateHighestSeverity h a) \<and>
         levelRank (updateHighestSeverity h a) = max (levelRank h) (severityRank (severity a))"
  using assms
  by (cases "severity a")
     (auto simp: knownLevel_def updateHighestSeverity_def levelRank_def severityRank_def Let_def)

lemma foldl_updateHighestSeverity_rank:
  assumes "knownLevel h"
  shows "knownLevel (foldl updateHighestSeverity h as) \<and>
         levelRank (foldl updateHighestSeverity h as) =
           Max (insert (levelRank h) (set (map (\<lambda>a. severityRank (severity a)) as)))"
  using assms
proof (induction as arbitrary: h)
  case Nil
  then show ?case by simp
next
  case (Cons a as)
  have k: "knownLevel (updateHighestSeverity h a)"
    and r: "levelRank (updateHighestSeverity h a) = max (levelRank h) (severityRank (severity a))"
    using updateHighestSeverity_rank[OF Cons.prems] by auto
  let ?S = "set (map (\<lambda>a. severityRank (severity a)) as)"
  have "Max (insert (max (levelRank h) (severityRank (severity a))) ?S)
      = Max (insert (levelRank h) (insert (severityRank (severity a)) ?S))"
    by (cases "?S = {}") (simp_all add: max.assoc)
  with Cons.IH[OF k] r show ?case by simp
qed

lemma severityOfRank_levelRank: "knownLevel s \<Longrightarrow> severityOfRank (levelRank s) = s"
  by (auto simp: knownLevel_def severityOfRank_def levelRank_def)

lemma highestSeverityOf_worst:
  assumes "as \<noteq> []"
  shows "highestSeverityOf as = worstSeverity as"
proof -
  have k: "knownLevel ''minor''" by (simp add: knownLevel_def)
  let ?S = "set (map (\<lambda>a. severityRank (severity a)) as)"
  from assms have ne: "?S \<noteq> {}" by simp
  have "levelRank (highestSeverityOf as) = Max (insert 0 ?S)"
    using foldl_updateHighestSeverity_rank[OF k, of as]
    by (simp add: highestSeverityOf_def levelRank_def)
  also have "\<dots> = Max ?S" using ne by (simp add: max_def)
  finally have "severityOfRank (levelRank (highestSeverityOf as)) = worstSeverity as"
    by (simp add: worstSeverity_def worstRank_def)
  moreover have "knownLevel (highestSeverityOf as)"
    using foldl_updateHighestSeverity_rank[OF k, of as] by (simp add: highestSeverityOf_def)
  ultimately show ?thesis by (simp add: severityOfRank_levelRank)
qed

text \<open>
  Claim C1. For a county with at least one alert, the loop of \<open>getColor\<close> ends with the
  severity of the highest rank among the alerts (\<open>extreme > severe > moderate > minor\<close>, an
  unknown or absent severity counting as \<open>minor\<close>), and the colour under the metric
  \<open>alerts\<close> is decided by that rank alone: \<open>#FF0000\<close> when the worst alert is extreme or
  severe, \<open>#FFA500\<close> when it is moderate, \<open>#FFFF00\<close> when it is minor. Neither the order of
  the alerts nor the lesser severities matter.
\<close>

theorem getColor_alerts_worst_severity:
  assumes "alerts (data county) = Some as" and "as \<noteq> []"
  shows "highestSeverityOf as = worstSeverity as \<and>
         getColor county ''alerts'' =
           (if worstRank as = 3 \<or> worstRank as = 2 then ''#FF0000''
            else if worstRank as = 1 then ''#FFA500''
            else ''#FFFF00'')"
proof -
  have h: "highestSeverityOf as = severityOfRank (worstRank as)"
    using highestSeverityOf_worst[OF assms(2)] by (simp add: worstSeverity_def)
  have "getColor county ''alerts'' = severityColor (severityOfRank (worstRank as))"
    using assms h by (simp add: getColor_def)
  then show ?thesis
    using h by (simp add: worstSeverity_def severityColor_def severityOfRank_def)
qed

text \<open>
  The county of the specification's example, the severity of the second alert written
  with a capital: a \<open>minor\<close> alert followed by an \<open>Extreme\<close> one classifies as \<open>extreme\<close> and
  is red, where the first alert alone is yellow.
\<close>

theorem getColor_alerts_worst_severity_witness:
  "highestSeverityOf [alertOfSeverity ''minor'', alertOfSeverity ''Extreme''] = ''extreme'' \<and>
   getColor (withAlerts [alertOfSeverity ''minor'', alertOfSeverity ''Extreme''] foard) ''alerts''
     = ''#FF0000'' \<and>
   getColor (withAlerts [alertOfSeverity ''minor''] foard) ''alerts'' = ''#FFFF00''"
proof -
  let ?as = "[alertOfSeverity ''minor'', alertOfSeverity ''Extreme'']"
  let ?bs = "[alertOfSeverity ''minor'']"
  have a: "alerts (data (withAlerts xs foard)) = Some xs" for xs
    by (simp add: withAlerts_def)
  have r: "worstRank ?as = 3" by code_simp
  have w: "worstSeverity ?as = ''extreme''" by code_simp
  have r1: "worstRank ?bs = 0" by code_simp
  have x: "highestSeverityOf ?as = ''extreme'' \<and>
      getColor (withAlerts ?as foard) ''alerts'' = ''#FF0000''"
    using getColor_alerts_worst_severity[OF a, of ?as] r w by simp
  have y: "getColor (withAlerts ?bs foard) ''alerts'' = ''#FFFF00''"
    using getColor_alerts_worst_severity[OF a, of ?bs] r1 by simp
  show ?thesis using x y by blast
qed

section \<open>The county-name normalizer on the specification's examples\<close>

text \<open>
  Claim C2, as stated, fails: the normalizer strips the suffix in either case but leaves
  the case of the name as it is, so \<open>foo county\<close> becomes \<open>foo\<close>, not \<open>Foo\<close>.
\<close>

theorem normalizeCountyName_examples_counterexample:
  "\<not> (normalizeCountyName ''Foo County'' = normalizeCountyName ''foo county'' \<and>
      normalizeCountyName ''foo county'' = normalizeCountyName '' Foo '' \<and>
      normalizeCountyName '' Foo '' = ''Foo'')"
  by code_simp

text \<open>
  Claim C2, amended. \<open>Foo County\<close> and \<open> Foo \<close> both normalize to \<open>Foo\<close>; \<open>foo county\<close>
  loses its suffix as well and normalizes to \<open>foo\<close>, its own case kept.
\<close>

theorem normalizeCountyName_examples:
  "normalizeCountyName ''Foo County'' = ''Foo'' \<and>
   normalizeCountyName '' Foo '' = ''Foo'' \<and>
   normalizeCountyName ''foo county'' = ''foo''"
  by code_simp

text \<open>
  Claim C6 fails on the code: the suffix is removed before the input is trimmed, so white
  space after the suffix hides it from the pattern. The first pass only trims the input
  \<open>Foo County \<close>, the second pass removes the suffix.
\<close>

theorem normalizeCountyName_not_idempotent:
  "normalizeCountyName ''Foo County '' = ''Foo County'' \<and>
   normalizeCountyName (normalizeCountyName ''Foo County '') = ''Foo'' \<and>
   normalizeCountyName (normalizeCountyName ''Foo County '') \<noteq> normalizeCountyName ''Foo County ''"
  by code_simp

text \<open>What is left of idempotence: a trimmed string stays as it is under \<open>trim\<close>.\<close>

lemma dropWhile_trim: "dropWhile isWhiteSpace (trim s) = trim s"
proof -
  define t where "t = dropWhile isWhiteSpace s"
  define u where "u = rev (dropWhile isWhiteSpace (rev t))"
  have split: "t = u @ rev (takeWhile isWhiteSpace (rev t))"
    unfolding u_def by (metis rev_append rev_rev_ident takeWhile_dropWhile_id)
  have tr: "trim s = u"
    by (simp add: trim_def t_def u_def)
  show ?thesis
  proof (cases u)
    case Nil
    with tr show ?thesis by simp
  next
    case (Cons x xs)
    with split have t: "t = x # (xs @ rev (takeWhile isWhiteSpace (rev t)))" by simp
    then have "t \<noteq> []" and "hd t = x" by (metis list.distinct(1), metis list.sel(1))
    then have "\<not> isWhiteSpace x"
      using hd_dropWhile[of isWhiteSpace s] by (simp add: t_def)
    with Cons tr show ?thesis by simp
  qed
qed

lemma trim_idem: "trim (trim s) = trim s"
proof -
  have "rev (trim s) = dropWhile isWhiteSpace (rev (dropWhile isWhiteSpace s))"
    by (simp add: trim_def)
  then have "dropWhile isWhiteSpace (rev (trim s)) = rev (trim s)"
    by simp
  then show ?thesis
    using dropWhile_trim[of s] by (simp add: trim_def[of "trim s"])
qed

lemma length_replaceCountySuffix: "length (replaceCountySuffix s) \<le> length s"
  by (induction s) auto

lemma replaceCountySuffix_length_eq:
  "length (replaceCountySuffix s) = length s \<Longrightarrow> replaceCountySuffix s = s"
  by (induction s) (auto split: if_splits)

lemma length_trim: "length (trim s) \<le> length s"
  unfolding trim_def
  by (metis length_dropWhile_le length_rev le_trans)

text \<open>
  The normalizer is idempotent at exactly the inputs whose normal form carries no suffix
  that a further pass would remove.
\<close>

lemma normalizeCountyName_idempotent_iff:
  "(normalizeCountyName (normalizeCountyName x) = normalizeCountyName x) =
   (replaceCountySuffix (normalizeCountyName x) = normalizeCountyName x)"
proof
  assume "replaceCountySuffix (normalizeCountyName x) = normalizeCountyName x"
  then show "normalizeCountyName (normalizeCountyName x) = normalizeCountyName x"
    by (simp add: normalizeCountyName_def[of "trim (replaceCountySuffix x)"]
        normalizeCountyName_def[of x] trim_idem)
next
  assume a: "normalizeCountyName (normalizeCountyName x) = normalizeCountyName x"
  let ?n = "normalizeCountyName x"
  have "length ?n = length (trim (replaceCountySuffix ?n))"
    using a by (simp add: normalizeCountyName_def[of "normalizeCountyName x"])
  also have "\<dots> \<le> length (replaceCountySuffix ?n)" by (rule length_trim)
  finally have "length (replaceCountySuffix ?n) = length ?n"
    using length_replaceCountySuffix[of ?n] by simp
  then show "replaceCountySuffix ?n = ?n" by (rule replaceCountySuffix_length_eq)
qed

section \<open>Temperature buckets\<close>

text \<open>
  Claim C3. Under the metric \<open>temperature\<close> the colour is always one of five. A finite
  temperature falls into exactly one of five buckets: below 0, from 0 up to 10, from 10 up
  to 20, from 20 up to 30, and 30 or more; each bucket has a colour of its own, the lower
  bound belongs to the bucket and the upper bound does not. The infinities fall into the
  two outer buckets.
\<close>

theorem getColor_temperature_buckets:
  "getColor county ''temperature''
     \<in> set [''#9CA3AF'', ''#F7FCFD'', ''#FFD166'', ''#FF9966'', ''#FF5F5F''] \<and>
   (val (temperature (data county)) = Finite t \<longrightarrow>
      (getColor county ''temperature'' = ''#9CA3AF'') = (t < 0) \<and>
      (getColor county ''temperature'' = ''#F7FCFD'') = (0 \<le> t \<and> t < 10) \<and>
      (getColor county ''temperature'' = ''#FFD166'') = (10 \<le> t \<and> t < 20) \<and>
      (getColor county ''temperature'' = ''#FF9966'') = (20 \<le> t \<and> t < 30) \<and>
      (getColor county ''temperature'' = ''#FF5F5F'') = (30 \<le> t)) \<and>
   (val (temperature (data county)) = NegInfinity \<longrightarrow>
      getColor county ''temperature'' = ''#9CA3AF'') \<and>
   (val (temperature (data county)) = PosInfinity \<longrightarrow>
      getColor county ''temperature'' = ''#FF5F5F'')"
  by (simp add: getColor_def Let_def)

text \<open>
  The temperature 10 has the colour of the bucket from 10 up to 20, not that of the bucket
  below it; the infinities have the colours of the coldest and the hottest bucket.
\<close>

theorem getColor_temperature_buckets_witness:
  "getColor (withTemperature (Finite 10) foard) ''temperature'' = ''#FFD166'' \<and>
   getColor (withTemperature (Finite 10) foard) ''temperature'' \<noteq> ''#F7FCFD'' \<and>
   getColor (withTemperature NegInfinity foard) ''temperature'' = ''#9CA3AF'' \<and>
   getColor (withTemperature PosInfinity foard) ''temperature'' = ''#FF5F5F''"
proof -
  have h: "val (temperature (data (withTemperature x foard))) = x" for x
    by (simp add: withTemperature_def)
  have f: "getColor (withTemperature (Finite 10) foard) ''temperature'' = ''#FFD166''"
    using getColor_temperature_buckets[of "withTemperature (Finite 10) foard" 10] h
    by simp
  have n: "getColor (withTemperature NegInfinity foard) ''temperature'' = ''#9CA3AF''"
    using getColor_temperature_buckets[of "withTemperature NegInfinity foard" 0] h
    by simp
  have p: "getColor (withTemperature PosInfinity foard) ''temperature'' = ''#FF5F5F''"
    using getColor_temperature_buckets[of "withTemperature PosInfinity foard" 0] h
    by simp
  show ?thesis using f n p by simp
qed

text \<open>NaN fails every comparison and has the colour of the last bucket.\<close>

lemma getColor_temperature_NaN:
  "val (temperature (data county)) = NaN \<Longrightarrow> getColor county ''temperature'' = ''#FF5F5F''"
  by (simp add: getColor_def Let_def)

section \<open>Visibility: absent, zero and good readings\<close>

text \<open>
  Claim C4 fails on the code. \<open>getColor\<close> gives a county without a visibility reading the
  colour it gives a reading of 10000 m or more: the sample record \<open>foard\<close> (no reading) and
  the sample record \<open>blanco\<close> (16093.44 m) have the same colour.
\<close>

theorem getColor_visibility_null_same_as_good:
  "val (visibility (data foard)) = None \<and>
   val (visibility (data blanco)) = Some (Finite 16093.44) \<and>
   getColor foard ''visibility'' = ''#F7FCFD'' \<and>
   getColor blanco ''visibility'' = ''#F7FCFD''"
  by (simp add: getColor_def foard_def blanco_def truthyNumber_def)

lemma getColor_visibility_null_good:
  assumes "val (visibility (data c1)) = None"
    and "val (visibility (data c2)) = Some (Finite m)" and "10000 \<le> m"
  shows "getColor c1 ''visibility'' = getColor c2 ''visibility''"
  using assms by (auto simp add: getColor_def truthyNumber_def)

text \<open>
  Claim C8 fails on the code. \<open>getColor\<close> tests \<open>!visibility\<close>, which holds of \<open>0\<close> as it does
  of \<open>null\<close>: a reading of 0 m has the colour of no reading, not the colour of the bucket
  below 1000 m. The badge of the detail card tests \<open>meters === null\<close> and tells the two
  apart.
\<close>

theorem getColor_visibility_zero_same_as_null:
  "getColor (withVisibility (Some (Finite 0)) travis) ''visibility'' = ''#F7FCFD'' \<and>
   getColor (withVisibility None travis) ''visibility'' = ''#F7FCFD'' \<and>
   getColor (withVisibility (Some (Finite 999)) travis) ''visibility'' = ''#FF5F5F'' \<and>
   getVisibilityBadgeColor (Some (Finite 0)) = ''bg-red-500 text-white'' \<and>
   getVisibilityBadgeColor None = ''bg-gray-400 text-white''"
  by (simp add: getColor_def travis_def withVisibility_def truthyNumber_def
      getVisibilityBadgeColor_def)

text \<open>The detail card keeps an absent reading apart from every number.\<close>

lemma getVisibilityBadgeColor_null_distinct:
  "getVisibilityBadgeColor None \<noteq> getVisibilityBadgeColor (Some m)"
  by (simp add: getVisibilityBadgeColor_def)

lemma getVisibilityLabel_null_distinct:
  "getVisibilityLabel milesText None \<noteq> getVisibilityLabel milesText (Some m)"
  by (simp add: getVisibilityLabel_def Let_def)

section \<open>The display text of a hazard\<close>

text \<open>
  Claim C5, as stated, fails: for an object without any of the five fields the code
  returns the JSON text of the object, not the generic label. \<open>JSON.stringify\<close> renders the
  object without properties as \<open>{}\<close>.
\<close>

theorem getHazardDisplayText_unknown_counterexample:
  "isObject (Obj []) \<and>
   find truthy
     (map (getProp (Obj [])) [''event'', ''type'', ''name'', ''description'', ''phenomenon''])
     = None \<and>
   getHazardDisplayText (\<lambda>h. Some ''{}'') (Obj []) = Str ''{}'' \<and>
   getHazardDisplayText (\<lambda>h. Some ''{}'') (Obj []) \<noteq> Str ''Unknown hazard''"
  by (simp add: getHazardDisplayText_def)

text \<open>
  Claim C5, amended. A bare string is its own display text. An object yields the first
  truthy value among its fields \<open>event\<close>, \<open>type\<close>, \<open>name\<close>, \<open>description\<close>, \<open>phenomenon\<close>, in
  this order; when none is truthy it yields its JSON text, and the label
  \<open>Unknown hazard\<close> only if \<open>JSON.stringify\<close> throws. Every other entry yields the label
  \<open>Unknown hazard\<close>. The callback of \<open>formatHazards\<close> takes the same steps.
\<close>

theorem getHazardDisplayText_priority:
  "getHazardDisplayText stringify hazard =
     (case hazard of
        Str s \<Rightarrow> Str s
      | _ \<Rightarrow>
          if isObject hazard then
            (case find truthy
                    (map (getProp hazard)
                       [''event'', ''type'', ''name'', ''description'', ''phenomenon'']) of
               Some v \<Rightarrow> v
             | None \<Rightarrow>
                 (case stringify hazard of
                    Some s \<Rightarrow> Str s
                  | None \<Rightarrow> Str ''Unknown hazard''))
          else Str ''Unknown hazard'') \<and>
   formatHazardsEntry stringify hazard = getHazardDisplayText stringify hazard"
  by (cases hazard) (simp_all add: getHazardDisplayText_def formatHazardsEntry_def)

text \<open>
  An object whose \<open>event\<close> is the empty string and which has both a \<open>phenomenon\<close> and a
  \<open>name\<close>: the name comes first in the order.
\<close>

theorem getHazardDisplayText_priority_witness:
  "getHazardDisplayText (\<lambda>h. Some ''{}'')
     (Obj [(''event'', Str []), (''phenomenon'', Str ''FW''), (''name'', Str ''Red Flag'')])
     = Str ''Red Flag''"
  using getHazardDisplayText_priority[of "\<lambda>h. Some ''{}''"
      "Obj [(''event'', Str []), (''phenomenon'', Str ''FW''), (''name'', Str ''Red Flag'')]"]
  by simp

section \<open>Looking a county up by name\<close>

text \<open>
  Claim C7. \<open>findCountyByName\<close> returns a record exactly when some record of the list has a
  normalized name equal to the normalized query, and a record it returns is a record of
  the list with that property.
\<close>

theorem findCountyByName_iff:
  "(findCountyByName counties name \<noteq> None) =
     (\<exists>county \<in> set counties.
        normalizeCountyName (countyName county) = normalizeCountyName name) \<and>
   (\<forall>county. findCountyByName counties name = Some county \<longrightarrow>
      county \<in> set counties \<and>
      normalizeCountyName (countyName county) = normalizeCountyName name)"
  unfolding findCountyByName_def Let_def
  by (auto simp: find_None_iff find_Some_iff)

theorem findCountyByName_iff_witness:
  "findCountyByName [foard, travis] ''Travis County'' = Some travis \<and>
   travis \<in> set [foard, travis] \<and>
   normalizeCountyName (countyName travis) = normalizeCountyName ''Travis County''"
proof -
  have f: "findCountyByName [foard, travis] ''Travis County'' = Some travis"
    by code_simp
  show ?thesis
    using findCountyByName_iff[of "[foard, travis]" "''Travis County''"] f by simp
qed

section \<open>The fill-colour expression\<close>

lemma foldl_pushCounty:
  "foldl (pushCounty dataType) acc counties =
     acc @ concat (map (\<lambda>county. [Lit (countyName county @ '' County''),
                                   Lit (getColor county dataType)]) counties)"
  by (induction counties arbitrary: acc) (simp_all add: pushCounty_def)

lemma branchesOf_pairs:
  "branchesOf (concat (map (\<lambda>c. [Lit (k c), Lit (v c)]) cs) @ [Lit fb]) =
     Some (map (\<lambda>c. (k c, v c)) cs, fb)"
  by (induction cs) auto

lemma map_of_pairs:
  "map_of (map (\<lambda>c. (k c, v c)) cs) input = map_option v (find (\<lambda>c. k c = input) cs)"
  by (induction cs) auto

text \<open>
  The map library accepts the generated expression exactly when there is a county and no
  two counties have the same name.
\<close>

lemma matchValue_generateFillColorExpression:
  "matchValue (generateFillColorExpression counties dataType) label =
     (if counties \<noteq> [] \<and> distinct (map (\<lambda>county. countyName county @ '' County'') counties)
      then Some (case find (\<lambda>county. countyName county @ '' County'' = label) counties of
                   Some county \<Rightarrow> getColor county dataType
                 | None \<Rightarrow> ''#CCCCCC'')
      else None)"
proof -
  have "map fst (map (\<lambda>c. (countyName c @ '' County'', getColor c dataType)) counties)
      = map (\<lambda>county. countyName county @ '' County'') counties"
    by (simp add: comp_def)
  then show ?thesis
    by (simp add: generateFillColorExpression_def foldl_pushCounty matchValue_def
        branchesOf_pairs map_of_pairs comp_def split: option.splits)
qed

text \<open>
  Claim C10, as stated, fails: for the empty list the expression is the operator, the
  input and the fallback alone, and for a list that holds a county twice a label occurs
  twice; the map library refuses both, so no label is mapped to the fallback colour.
\<close>

theorem generateFillColorExpression_fallback_counterexample:
  "generateFillColorExpression [] ''temperature'' =
     [Lit ''match'', Call [''get'', ''COUNTY''], Lit ''#CCCCCC''] \<and>
   ''Bexar County'' \<notin> set (map (\<lambda>county. countyName county @ '' County'') []) \<and>
   matchValue (generateFillColorExpression [] ''temperature'') ''Bexar County'' = None \<and>
   matchValue (generateFillColorExpression [travis, travis] ''temperature'') ''Bexar County''
     = None"
  by (simp add: generateFillColorExpression_def pushCounty_def matchValue_def travis_def)

text \<open>
  Claim C10, amended. For every list of counties the expression is the operator and the
  input, then for every record in list order its name followed by \<open> County\<close> and its colour
  under the metric, then the fallback \<open>#CCCCCC\<close>. When the list is not empty and no two of
  its keys are equal, the key of a record has the colour of that record as its value and a
  label that is the key of no record has the fallback.
\<close>

theorem generateFillColorExpression_pairs:
  "generateFillColorExpression counties dataType =
     [Lit ''match'', Call [''get'', ''COUNTY'']]
       @ concat (map (\<lambda>county. [Lit (countyName county @ '' County''),
                                 Lit (getColor county dataType)]) counties)
       @ [Lit ''#CCCCCC''] \<and>
   (counties \<noteq> [] \<and> distinct (map (\<lambda>county. countyName county @ '' County'') counties) \<longrightarrow>
      matchValue (generateFillColorExpression counties dataType) label =
        Some (case find (\<lambda>county. countyName county @ '' County'' = label) counties of
                Some county \<Rightarrow> getColor county dataType
              | None \<Rightarrow> ''#CCCCCC'') \<and>
      (label \<notin> set (map (\<lambda>county. countyName county @ '' County'') counties) \<longrightarrow>
         matchValue (generateFillColorExpression counties dataType) label = Some ''#CCCCCC''))"
proof -
  have e: "generateFillColorExpression counties dataType =
     [Lit ''match'', Call [''get'', ''COUNTY'']]
       @ concat (map (\<lambda>county. [Lit (countyName county @ '' County''),
                                 Lit (getColor county dataType)]) counties)
       @ [Lit ''#CCCCCC'']"
    by (simp add: generateFillColorExpression_def foldl_pushCounty)
  have f: "label \<notin> set (map (\<lambda>county. countyName county @ '' County'') counties) \<Longrightarrow>
      find (\<lambda>c. countyName c @ '' County'' = label) counties = None"
    by (auto simp: find_None_iff)
  have m: "counties \<noteq> [] \<and>
      distinct (map (\<lambda>county. countyName county @ '' County'') counties) \<Longrightarrow>
      matchValue (generateFillColorExpression counties dataType) label =
        Some (case find (\<lambda>county. countyName county @ '' County'' = label) counties of
                Some county \<Rightarrow> getColor county dataType
              | None \<Rightarrow> ''#CCCCCC'')"
    unfolding matchValue_generateFillColorExpression by simp
  have g: "counties \<noteq> [] \<and>
      distinct (map (\<lambda>county. countyName county @ '' County'') counties) \<Longrightarrow>
      label \<notin> set (map (\<lambda>county. countyName county @ '' County'') counties) \<Longrightarrow>
      matchValue (generateFillColorExpression counties dataType) label = Some ''#CCCCCC''"
    using f m by simp
  show ?thesis
    using e m g by blast
qed

text \<open>
  Two sample records under the metric \<open>temperature\<close>: the expression, the value at the key
  of a record and the value at a label that is no key.
\<close>

theorem generateFillColorExpression_pairs_witness:
  "generateFillColorExpression [foard, travis] ''temperature'' =
     [Lit ''match'', Call [''get'', ''COUNTY''], Lit ''Foard County'', Lit ''#F7FCFD'',
      Lit ''Travis County'', Lit ''#FFD166'', Lit ''#CCCCCC''] \<and>
   matchValue (generateFillColorExpression [foard, travis] ''temperature'') ''Travis County''
     = Some ''#FFD166'' \<and>
   matchValue (generateFillColorExpression [foard, travis] ''temperature'') ''Bexar County''
     = Some ''#CCCCCC''"
proof -
  have k: "countyName foard = ''Foard''" "countyName travis = ''Travis''"
    by (simp_all add: foard_def travis_def)
  have c: "getColor foard ''temperature'' = ''#F7FCFD''"
    "getColor travis ''temperature'' = ''#FFD166''"
    by (simp_all add: getColor_def foard_def travis_def Let_def)
  have d: "[foard, travis] \<noteq> [] \<and>
      distinct (map (\<lambda>county. countyName county @ '' County'') [foard, travis])"
    by (simp add: k)
  have e: "generateFillColorExpression [foard, travis] ''temperature'' =
     [Lit ''match'', Call [''get'', ''COUNTY''], Lit ''Foard County'', Lit ''#F7FCFD'',
      Lit ''Travis County'', Lit ''#FFD166'', Lit ''#CCCCCC'']"
    using generateFillColorExpression_pairs[of "[foard, travis]" "''temperature''"
        "''Bexar County''", THEN conjunct1]
    by (simp add: k c)
  have n: "''Bexar County''
      \<notin> set (map (\<lambda>county. countyName county @ '' County'') [foard, travis])"
    by (simp add: k)
  have m: "matchValue (generateFillColorExpression [foard, travis] ''temperature'')
      ''Bexar County'' = Some ''#CCCCCC''"
    using generateFillColorExpression_pairs[of "[foard, travis]" "''temperature''"
        "''Bexar County''", THEN conjunct2] d n
    by blast
  have t: "matchValue (generateFillColorExpression [foard, travis] ''temperature'')
      ''Travis County'' =
        Some (case find (\<lambda>county. countyName county @ '' County'' = ''Travis County'')
                     [foard, travis] of
                Some county \<Rightarrow> getColor county ''temperature''
              | None \<Rightarrow> ''#CCCCCC'')"
    using generateFillColorExpression_pairs[of "[foard, travis]" "''temperature''"
        "''Travis County''", THEN conjunct2] d
    by blast
  have t': "matchValue (generateFillColorExpression [foard, travis] ''temperature'')
      ''Travis County'' = Some ''#FFD166''"
    unfolding t by (simp add: k c)
  show ?thesis using e m t' by blast
qed

section \<open>Publishing twice\<close>

lemma writeAtomic_apply:
  "writeAtomic path content fs p =
     (if p = path @ ''.tmp'' then None else if p = path then Some content else fs p)"
  by (simp add: writeAtomic_def Let_def)

text \<open>
  Claim C9. Publishing the same records and timestamp a second time leaves the three
  artifacts, and the whole artifact set, as the first publication left them; the
  artifacts are the encodings of the records and the timestamp, whatever was there
  before.
\<close>

theorem publish_idempotent:
  "artifacts (publish toJson toCsv timestampJson records timestamp
               (publish toJson toCsv timestampJson records timestamp fs))
     = artifacts (publish toJson toCsv timestampJson records timestamp fs) \<and>
   artifacts (publish toJson toCsv timestampJson records timestamp fs)
     = (Some (toJson records), Some (toCsv records), Some (timestampJson timestamp)) \<and>
   publish toJson toCsv timestampJson records timestamp
     (publish toJson toCsv timestampJson records timestamp fs)
     = publish toJson toCsv timestampJson records timestamp fs"
proof -
  have a: "\<And>fs. artifacts (publish toJson toCsv timestampJson records timestamp fs)
     = (Some (toJson records), Some (toCsv records), Some (timestampJson timestamp))"
    by (simp add: artifacts_def publish_def writeAtomic_apply)
  have b: "publish toJson toCsv timestampJson records timestamp
      (publish toJson toCsv timestampJson records timestamp fs)
     = publish toJson toCsv timestampJson records timestamp fs"
    by (rule ext) (simp add: publish_def writeAtomic_apply)
  show ?thesis using a b by simp
qed

end
